theory Spec2Isabelle
  imports Main
begin

section \<open>JavaScript strings\<close>

text \<open>
  A JavaScript string is a finite sequence of UTF-16 code units. Every text of
  \<^verbatim>\<open>app.js\<close> lies in the Basic Multilingual Plane, so one code unit is one character.
\<close>

type_synonym jsstring = "nat list"

definition ascii :: "string \<Rightarrow> jsstring" where
  "ascii s = map of_char s"

text \<open>
  \<^verbatim>\<open>String.prototype.trim\<close> strips the code units of WhiteSpace and LineTerminator:
  TAB, LF, VT, FF, CR, SP, NBSP, U+1680, U+2000 to U+200A, LS, PS, U+202F, U+205F,
  U+3000 and the byte order mark.
\<close>

definition is_whitespace :: "nat \<Rightarrow> bool" where
  "is_whitespace c =
     (c \<in> set [0x09, 0x0A, 0x0B, 0x0C, 0x0D, 0x20, 0xA0, 0x1680,
                0x2000, 0x2001, 0x2002, 0x2003, 0x2004, 0x2005, 0x2006, 0x2007,
                0x2008, 0x2009, 0x200A, 0x2028, 0x2029, 0x202F, 0x205F, 0x3000, 0xFEFF])"

definition js_trim :: "jsstring \<Rightarrow> jsstring" where
  "js_trim s = rev (dropWhile is_whitespace (rev (dropWhile is_whitespace s)))"

text \<open>Decimal rendering of a non-negative integer (array indices, HTTP status codes).\<close>

function dec :: "nat \<Rightarrow> jsstring" where
  "dec n = (if n < 10 then [48 + n] else dec (n div 10) @ [48 + n mod 10])"
  by pat_completeness auto
termination
  by (relation "measure id") auto

declare dec.simps [simp del]

text \<open>The fixed texts of \<^verbatim>\<open>app.js\<close>, as code units.\<close>

definition rephrase_text :: jsstring where
  "rephrase_text = [0x8ACB, 0x63DB, 0x500B, 0x8AAA, 0x6CD5, 0xFF0C, 0x8B1D, 0x8B1D, 0x60A8]"

definition network_unstable_text :: jsstring where
  "network_unstable_text =
     [0x7DB2, 0x8DEF, 0x4E0D, 0x7A69, 0x5B9A, 0xFF0C, 0x8ACB, 0x518D, 0x8A66, 0x4E00, 0x6B21]"

definition malformed_text :: jsstring where
  "malformed_text =
     [0x4F3A, 0x670D, 0x5668, 0x56DE, 0x61C9, 0x683C, 0x5F0F, 0x932F, 0x8AA4, 0xFF0C,
      0x8ACB, 0x7A0D, 0x5F8C, 0x518D, 0x8A66]"

definition abnormal_text :: jsstring where
  "abnormal_text =
     [0x7CFB, 0x7D71, 0x56DE, 0x61C9, 0x7570, 0x5E38, 0xFF0C, 0x8ACB, 0x7A0D, 0x5F8C,
      0x518D, 0x8A66]"

definition offline_text :: jsstring where
  "offline_text =
     [0x76EE, 0x524D, 0x8655, 0x65BC, 0x96E2, 0x7DDA, 0x72C0, 0x614B, 0xFF0C, 0x8ACB,
      0x6AA2, 0x67E5, 0x7DB2, 0x8DEF, 0x9023, 0x7DDA, 0x5F8C, 0x518D, 0x8A66, 0x4E00, 0x6B21]"

definition language_text :: jsstring where
  "language_text = [0x7E41, 0x9AD4, 0x4E2D, 0x6587]"

section \<open>JavaScript values\<close>

text \<open>
  The values \<^verbatim>\<open>extractBotReply\<close> can be handed: what \<^verbatim>\<open>JSON.parse\<close> builds (null,
  booleans, numbers, strings, arrays, plain objects), \<^verbatim>\<open>undefined\<close>, and BigInt, the
  primitive that \<^verbatim>\<open>JSON.stringify\<close> refuses. A number or BigInt is carried by its
  canonical rendering (the result of ToString, such as \<^verbatim>\<open>0\<close>, \<^verbatim>\<open>-1.5\<close>, \<^verbatim>\<open>1e+21\<close>,
  \<^verbatim>\<open>NaN\<close>, \<^verbatim>\<open>Infinity\<close>): the program only converts numbers to text and tests them for
  truth, and both are read off the rendering (\<^verbatim>\<open>-0\<close> renders as \<^verbatim>\<open>0\<close>). An object is
  the list of its own enumerable properties in enumeration order.
\<close>

datatype jsval =
    JUndefined
  | JNull
  | JBool bool
  | JNum jsstring
  | JStr (str_of: jsstring)
  | JBigInt jsstring
  | JArr "jsval list"
  | JObj "(jsstring \<times> jsval) list"

text \<open>ToBoolean.\<close>

fun truthy :: "jsval \<Rightarrow> bool" where
  "truthy JUndefined = False"
| "truthy JNull = False"
| "truthy (JBool b) = b"
| "truthy (JNum r) = (r \<noteq> ascii ''0'' \<and> r \<noteq> ascii ''NaN'')"
| "truthy (JStr s) = (s \<noteq> [])"
| "truthy (JBigInt r) = (r \<noteq> ascii ''0'')"
| "truthy (JArr xs) = True"
| "truthy (JObj kvs) = True"

fun js_typeof :: "jsval \<Rightarrow> string" where
  "js_typeof JUndefined = ''undefined''"
| "js_typeof JNull = ''object''"
| "js_typeof (JBool b) = ''boolean''"
| "js_typeof (JNum r) = ''number''"
| "js_typeof (JStr s) = ''string''"
| "js_typeof (JBigInt r) = ''bigint''"
| "js_typeof (JArr xs) = ''object''"
| "js_typeof (JObj kvs) = ''object''"

text \<open>
  Property access for the names the program uses (\<^verbatim>\<open>text\<close>, \<^verbatim>\<open>message\<close>, \<^verbatim>\<open>error\<close>,
  \<^verbatim>\<open>errorRaw\<close>, \<^verbatim>\<open>body\<close>): neither \<^verbatim>\<open>Object.prototype\<close> nor \<^verbatim>\<open>Array.prototype\<close>
  nor the wrappers of the primitives define them, so \<^verbatim>\<open>in\<close> and a property read see own
  properties only, an array has none of them, and a read on a primitive other than
  null and undefined gives \<^verbatim>\<open>undefined\<close>.
\<close>

fun has_prop :: "jsstring \<Rightarrow> jsval \<Rightarrow> bool" where
  "has_prop k (JObj kvs) = (k \<in> set (map fst kvs))"
| "has_prop k _ = False"

fun get_prop :: "jsval \<Rightarrow> jsstring \<Rightarrow> jsval" where
  "get_prop (JObj kvs) k = (case map_of kvs k of Some v \<Rightarrow> v | None \<Rightarrow> JUndefined)"
| "get_prop _ k = JUndefined"

text \<open>\<^verbatim>\<open>Object.keys\<close> of an object or array.\<close>

fun object_keys :: "jsval \<Rightarrow> jsstring list" where
  "object_keys (JObj kvs) = map fst kvs"
| "object_keys (JArr xs) = map dec [0..<length xs]"
| "object_keys _ = []"

section \<open>Conversion to string\<close>

text \<open>The exception the engine raises when a conversion has no result.\<close>

datatype exn = TypeError

text \<open>
  \<^verbatim>\<open>String(v)\<close>, which is ToString on these values. For an object, ToPrimitive calls
  \<^verbatim>\<open>toString\<close> and then \<^verbatim>\<open>valueOf\<close> when they are callable. No value here is callable, so an
  own property \<^verbatim>\<open>toString\<close> hides \<^verbatim>\<open>Object.prototype.toString\<close>, \<^verbatim>\<open>valueOf\<close> (own and
  not callable, or inherited and returning the object) yields no primitive, and the
  conversion throws a TypeError. An array converts by \<^verbatim>\<open>join\<close>, where null and
  undefined elements give the empty string.
\<close>

fun js_String :: "jsval \<Rightarrow> exn + jsstring"
  and js_join :: "jsval list \<Rightarrow> exn + jsstring" where
  "js_String JUndefined = Inr (ascii ''undefined'')"
| "js_String JNull = Inr (ascii ''null'')"
| "js_String (JBool b) = Inr (if b then ascii ''true'' else ascii ''false'')"
| "js_String (JNum r) = Inr r"
| "js_String (JStr s) = Inr s"
| "js_String (JBigInt r) = Inr r"
| "js_String (JArr xs) = js_join xs"
| "js_String (JObj kvs) =
     (if ascii ''toString'' \<in> set (map fst kvs) then Inl TypeError
      else Inr (ascii ''[object Object]''))"
| "js_join [] = Inr []"
| "js_join (x # xs) =
     (case (if x = JUndefined \<or> x = JNull then Inr [] else js_String x) of
        Inl e \<Rightarrow> Inl e
      | Inr s \<Rightarrow>
          (if xs = [] then Inr s
           else (case js_join xs of
                   Inl e \<Rightarrow> Inl e
                 | Inr r \<Rightarrow> Inr (s @ ascii '','' @ r))))"

section \<open>JSON.stringify\<close>

definition hex_digit :: "nat \<Rightarrow> nat" where
  "hex_digit d = (if d < 10 then 48 + d else 87 + d)"

text \<open>UnicodeEscape: backslash, \<^verbatim>\<open>u\<close> and four lowercase hexadecimal digits.\<close>

definition unicode_escape :: "nat \<Rightarrow> jsstring" where
  "unicode_escape c =
     [92, 117, hex_digit (c div 4096 mod 16), hex_digit (c div 256 mod 16),
      hex_digit (c div 16 mod 16), hex_digit (c mod 16)]"

definition is_lead :: "nat \<Rightarrow> bool" where
  "is_lead c = (0xD800 \<le> c \<and> c \<le> 0xDBFF)"

definition is_trail :: "nat \<Rightarrow> bool" where
  "is_trail c = (0xDC00 \<le> c \<and> c \<le> 0xDFFF)"

definition escape_unit :: "nat \<Rightarrow> jsstring" where
  "escape_unit c =
     (if c = 8 then [92, 98]
      else if c = 9 then [92, 116]
      else if c = 10 then [92, 110]
      else if c = 12 then [92, 102]
      else if c = 13 then [92, 114]
      else if c = 34 then [92, 34]
      else if c = 92 then [92, 92]
      else if c < 32 \<or> is_lead c \<or> is_trail c then unicode_escape c
      else [c])"

text \<open>
  QuoteJSONString without the surrounding quotes: a surrogate pair is kept, a lone
  surrogate is escaped.
\<close>

fun quote_units :: "jsstring \<Rightarrow> jsstring" where
  "quote_units [] = []"
| "quote_units [c] = escape_unit c"
| "quote_units (c # d # ds) =
     (if is_lead c \<and> is_trail d then c # d # quote_units ds
      else escape_unit c @ quote_units (d # ds))"

definition quote_json :: "jsstring \<Rightarrow> jsstring" where
  "quote_json s = [34] @ quote_units s @ [34]"

fun intercalate :: "jsstring \<Rightarrow> jsstring list \<Rightarrow> jsstring" where
  "intercalate sep [] = []"
| "intercalate sep [p] = p"
| "intercalate sep (p # q # ps) = p @ sep @ intercalate sep (q # ps)"

text \<open>
  The closing steps of SerializeJSONObject and SerializeJSONArray: \<open>stepback\<close> is the
  indentation of the holder, \<open>gap\<close> the indentation unit.
\<close>

definition wrap_json :: "jsstring \<Rightarrow> jsstring \<Rightarrow> jsstring \<Rightarrow> jsstring \<Rightarrow> jsstring list \<Rightarrow> jsstring" where
  "wrap_json opening closing gap stepback partial =
     (if partial = [] then opening @ closing
      else if gap = [] then opening @ intercalate (ascii '','') partial @ closing
      else opening @ [10] @ (stepback @ gap)
             @ intercalate ([44, 10] @ (stepback @ gap)) partial
             @ [10] @ stepback @ closing)"

text \<open>
  SerializeJSONProperty on a value without BigInt. A property whose value is
  \<^verbatim>\<open>undefined\<close> is left out of an object; as an array element \<^verbatim>\<open>undefined\<close> is
  written \<^verbatim>\<open>null\<close>. A number that is not finite is written \<^verbatim>\<open>null\<close>. An own
  \<^verbatim>\<open>toJSON\<close> property is not callable here and is ignored.
\<close>

fun json_text :: "jsstring \<Rightarrow> jsstring \<Rightarrow> jsval \<Rightarrow> jsstring"
  and json_elements :: "jsstring \<Rightarrow> jsstring \<Rightarrow> jsval list \<Rightarrow> jsstring list"
  and json_members :: "jsstring \<Rightarrow> jsstring \<Rightarrow> (jsstring \<times> jsval) list \<Rightarrow> jsstring list" where
  "json_text gap ind JUndefined = ascii ''null''"
| "json_text gap ind JNull = ascii ''null''"
| "json_text gap ind (JBool b) = (if b then ascii ''true'' else ascii ''false'')"
| "json_text gap ind (JNum r) =
     (if r = ascii ''NaN'' \<or> r = ascii ''Infinity'' \<or> r = ascii ''-Infinity''
      then ascii ''null'' else r)"
| "json_text gap ind (JStr s) = quote_json s"
| "json_text gap ind (JBigInt r) = []"
| "json_text gap ind (JArr xs) =
     wrap_json (ascii ''['') (ascii '']'') gap ind (json_elements gap (ind @ gap) xs)"
| "json_text gap ind (JObj kvs) =
     wrap_json (ascii ''{'') (ascii ''}'') gap ind (json_members gap (ind @ gap) kvs)"
| "json_elements gap ind [] = []"
| "json_elements gap ind (x # xs) = json_text gap ind x # json_elements gap ind xs"
| "json_members gap ind [] = []"
| "json_members gap ind ((k, v) # kvs) =
     (if v = JUndefined then json_members gap ind kvs
      else (quote_json k @ ascii '':'' @ (if gap \<noteq> [] then ascii '' '' else []) @ json_text gap ind v)
             # json_members gap ind kvs)"

text \<open>Serialization meets no BigInt.\<close>

fun serializable :: "jsval \<Rightarrow> bool"
  and serializable_list :: "jsval list \<Rightarrow> bool"
  and serializable_members :: "(jsstring \<times> jsval) list \<Rightarrow> bool" where
  "serializable (JBigInt r) = False"
| "serializable (JArr xs) = serializable_list xs"
| "serializable (JObj kvs) = serializable_members kvs"
| "serializable JUndefined = True"
| "serializable JNull = True"
| "serializable (JBool b) = True"
| "serializable (JNum r) = True"
| "serializable (JStr s) = True"
| "serializable_list [] = True"
| "serializable_list (x # xs) = (serializable x \<and> serializable_list xs)"
| "serializable_members [] = True"
| "serializable_members ((k, v) # kvs) = (serializable v \<and> serializable_members kvs)"

text \<open>
  \<^verbatim>\<open>JSON.stringify(value, null, space)\<close> for a value other than \<^verbatim>\<open>undefined\<close>, with
  \<open>space\<close> blanks of indentation per level: a TypeError when a BigInt is met.
\<close>

definition JSON_stringify :: "jsval \<Rightarrow> nat \<Rightarrow> exn + jsstring" where
  "JSON_stringify v space =
     (if serializable v then Inr (json_text (replicate (min space 10) 32) [] v)
      else Inl TypeError)"

section \<open>Normalising the reply: extractBotReply\<close>

definition extractBotReply :: "jsval \<Rightarrow> jsstring \<Rightarrow> exn + jsstring" where
  "extractBotReply data raw =
     (if js_typeof data = ''string'' then
        (let trimmed = js_trim (str_of data)
         in Inr (if trimmed \<noteq> [] then trimmed else rephrase_text))
      else if \<not> truthy data \<or> js_typeof data \<noteq> ''object'' then Inr rephrase_text
      else
        (let textContent =
               (if has_prop (ascii ''text'') data then get_prop data (ascii ''text'')
                else if has_prop (ascii ''message'') data then get_prop data (ascii ''message'')
                else JNull)
         in if textContent \<noteq> JNull then
              (case js_String textContent of
                 Inl e \<Rightarrow> Inl e
               | Inr s \<Rightarrow>
                   (let processed = js_trim s
                    in Inr (if processed \<noteq> [] then processed else rephrase_text)))
            else
              (let meaningfulKeys = filter (\<lambda>k. k \<noteq> ascii ''clientId'') (object_keys data)
               in if length meaningfulKeys = 0 then Inr network_unstable_text
                  else if truthy (get_prop data (ascii ''error'')) then
                    js_String (get_prop data (ascii ''error''))
                  else if truthy (get_prop data (ascii ''errorRaw'')) then Inr malformed_text
                  else
                    (case JSON_stringify data 2 of
                       Inr s \<Rightarrow> Inr s
                     | Inl e \<Rightarrow> Inr abnormal_text))))"

section \<open>The chat session\<close>

datatype role = User | Assistant

record message =
  msg_id :: jsstring
  msg_role :: role
  msg_text :: jsstring
  msg_ts :: nat

text \<open>
  The page elements are looked up once by \<^verbatim>\<open>getElementById\<close> and may be absent
  (\<open>None\<close>). Of the input only its value and its disabled flag are kept, of the send
  button its disabled flag, of the thinking indicator whether it carries the class
  \<^verbatim>\<open>hidden\<close>, and of the message container its rows (whether the row is a user row,
  and the text of the bubble). Focus and scrolling are not part of the state.
\<close>

record input_el =
  in_value :: jsstring
  in_disabled :: bool

record state =
  messages :: "message list"
  isSending :: bool
  clientId :: jsstring
  elInput :: "input_el option"
  elBtnSend :: "bool option"
  elThinking :: "bool option"
  elMessages :: "(bool \<times> jsstring) list option"

definition setThinking :: "bool \<Rightarrow> state \<Rightarrow> state" where
  "setThinking on st =
     (case elThinking st of
        None \<Rightarrow> st
      | Some h \<Rightarrow>
          (if on then
             st\<lparr>elThinking := Some False,
                elBtnSend := map_option (\<lambda>d. True) (elBtnSend st),
                elInput := map_option (\<lambda>i. i\<lparr>in_disabled := True\<rparr>) (elInput st)\<rparr>
           else
             st\<lparr>elThinking := Some True,
                elBtnSend := map_option (\<lambda>d. False) (elBtnSend st),
                elInput := map_option (\<lambda>i. i\<lparr>in_disabled := False\<rparr>) (elInput st)\<rparr>))"

definition render :: "state \<Rightarrow> state" where
  "render st =
     (case elMessages st of
        None \<Rightarrow> st
      | Some rows \<Rightarrow>
          st\<lparr>elMessages := Some (map (\<lambda>m. (msg_role m = User, msg_text m)) (messages st))\<rparr>)"

text \<open>The busy indicator is on the page and shown.\<close>

definition busy :: "state \<Rightarrow> bool" where
  "busy st = (elThinking st = Some False)"

subsection \<open>The request\<close>

record request =
  req_url :: jsstring
  req_method :: jsstring
  req_headers :: "(jsstring \<times> jsstring) list"
  req_body :: jsstring

definition API_BASE :: jsstring where
  "API_BASE = ascii ''https://taipei-marathon-server.onrender.com''"

definition api :: "jsstring \<Rightarrow> jsstring" where
  "api p = API_BASE @ p"

text \<open>
  The body object \<^verbatim>\<open>{ text: content, clientId, language }\<close>. Its three values are
  strings, so \<^verbatim>\<open>JSON.stringify\<close> cannot throw on it and returns \<open>json_text\<close> without
  indentation.
\<close>

definition request_payload :: "jsstring \<Rightarrow> jsstring \<Rightarrow> jsval" where
  "request_payload content cid =
     JObj [(ascii ''text'', JStr content),
           (ascii ''clientId'', JStr cid),
           (ascii ''language'', JStr language_text)]"

definition chat_request :: "jsstring \<Rightarrow> jsstring \<Rightarrow> request" where
  "chat_request content cid =
     \<lparr>req_url = api (ascii ''/api/chat''),
      req_method = ascii ''POST'',
      req_headers = [(ascii ''Content-Type'', ascii ''application/json''),
                     (ascii ''X-Client-Id'', cid)],
      req_body = json_text [] [] (request_payload content cid)\<rparr>"

subsection \<open>sendText up to the request\<close>

text \<open>
  \<^verbatim>\<open>(text ?? elInput?.value ?? "")\<close>: the argument unless it is undefined or null
  (\<open>None\<close>), else the value of the input when the page has one, else the empty string.
\<close>

definition effective_text :: "state \<Rightarrow> jsstring option \<Rightarrow> jsstring" where
  "effective_text st text =
     (case text of
        Some t \<Rightarrow> t
      | None \<Rightarrow> (case elInput st of Some i \<Rightarrow> in_value i | None \<Rightarrow> []))"

text \<open>
  The synchronous part of \<^verbatim>\<open>sendText\<close>, from the call to the first \<^verbatim>\<open>await\<close>: the
  state it leaves and the request handed to \<^verbatim>\<open>fetch\<close>, if any. \<open>uid\<close> and \<open>now\<close>
  are what \<^verbatim>\<open>uid()\<close> and \<^verbatim>\<open>Date.now()\<close> return.
\<close>

definition sendText_call :: "state \<Rightarrow> jsstring option \<Rightarrow> jsstring \<Rightarrow> nat \<Rightarrow> state \<times> request option" where
  "sendText_call st text uid now =
     (if isSending st then (st, None)
      else
        (let content = js_trim (effective_text st text)
         in if content = [] then (st, None)
            else
              (let st1 = st\<lparr>isSending := True\<rparr>;
                   userMsg = \<lparr>msg_id = uid, msg_role = User, msg_text = content, msg_ts = now\<rparr>;
                   st2 = st1\<lparr>messages := messages st1 @ [userMsg]\<rparr>;
                   st3 = st2\<lparr>elInput := map_option (\<lambda>i. i\<lparr>in_value := []\<rparr>) (elInput st2)\<rparr>;
                   st4 = render st3;
                   st5 = setThinking True st4
               in (st5, Some (chat_request content (clientId st5))))))"

subsection \<open>The outcome of the request\<close>

text \<open>An error object, by its \<^verbatim>\<open>name\<close> and \<^verbatim>\<open>message\<close>.\<close>

datatype js_error = JsError (err_name: jsstring) (err_message: jsstring)

text \<open>
  What the platform supplies: \<^verbatim>\<open>JSON.parse\<close> (\<open>None\<close> when it throws a SyntaxError)
  and the message the engine gives the TypeError of a failed conversion to string.
\<close>

record engine =
  JSON_parse :: "jsstring \<Rightarrow> jsval option"
  conversion_message :: jsstring

text \<open>
  \<^verbatim>\<open>fetch\<close> rejects, or resolves to a response whose \<^verbatim>\<open>text()\<close> resolves to the raw
  body or rejects. \<^verbatim>\<open>res.ok\<close> is true exactly for a status from 200 to 299.
\<close>

datatype body_read = BodyText jsstring | BodyFailed js_error

record response =
  status :: nat
  statusText :: jsstring
  body :: body_read

datatype outcome = Rejected js_error | Responded response

definition ok :: "response \<Rightarrow> bool" where
  "ok res = (200 \<le> status res \<and> status res \<le> 299)"

text \<open>
  \<^verbatim>\<open>(data && (data.error || data.body || data.message)) ?? raw ?? "unknown error"\<close>.
  \<open>raw\<close> is a string, so the last alternative is never taken.
\<close>

definition server_message :: "jsval \<Rightarrow> jsstring \<Rightarrow> jsval" where
  "server_message data raw =
     (let m = (if truthy data then
                 (if truthy (get_prop data (ascii ''error'')) then get_prop data (ascii ''error'')
                  else if truthy (get_prop data (ascii ''body'')) then get_prop data (ascii ''body'')
                  else get_prop data (ascii ''message''))
               else data)
      in if m = JNull \<or> m = JUndefined then JStr raw else m)"

text \<open>
  The \<^verbatim>\<open>try\<close> block from \<^verbatim>\<open>fetch\<close> to \<^verbatim>\<open>replyText\<close>: the reply text, or the error
  thrown.
\<close>

definition await_reply :: "engine \<Rightarrow> outcome \<Rightarrow> js_error + jsstring" where
  "await_reply eng out =
     (case out of
        Rejected e \<Rightarrow> Inl e
      | Responded res \<Rightarrow>
          (case body res of
             BodyFailed e \<Rightarrow> Inl e
           | BodyText raw \<Rightarrow>
               (let data = (if raw \<noteq> [] then
                              (case JSON_parse eng raw of
                                 Some d \<Rightarrow> d
                               | None \<Rightarrow> JObj [(ascii ''errorRaw'', JStr raw)])
                            else JObj [])
                in if \<not> ok res then
                     (if status res = 502 \<or> status res = 404 then
                        Inl (JsError (ascii ''Error'') (network_unstable_text @ ascii ''!''))
                      else
                        (case js_String (server_message data raw) of
                           Inl TypeError \<Rightarrow>
                             Inl (JsError (ascii ''TypeError'') (conversion_message eng))
                         | Inr serverMsg \<Rightarrow>
                             Inl (JsError (ascii ''Error'')
                                    (ascii ''HTTP '' @ dec (status res) @ ascii '' ''
                                     @ statusText res @ [32, 0x2014, 32] @ serverMsg))))
                   else
                     (case extractBotReply data raw of
                        Inl TypeError \<Rightarrow>
                          Inl (JsError (ascii ''TypeError'') (conversion_message eng))
                      | Inr replyText \<Rightarrow> Inr replyText))))"

subsection \<open>sendText after the request\<close>

text \<open>\<^verbatim>\<open>Error.prototype.toString\<close>.\<close>

definition error_toString :: "js_error \<Rightarrow> jsstring" where
  "error_toString err =
     (if err_name err = [] then err_message err
      else if err_message err = [] then err_name err
      else err_name err @ ascii '': '' @ err_message err)"

text \<open>
  The text of the \<^verbatim>\<open>catch\<close> block; \<open>onLine\<close> is \<^verbatim>\<open>navigator.onLine\<close> when the error
  is handled.
\<close>

definition friendly :: "bool \<Rightarrow> js_error \<Rightarrow> jsstring" where
  "friendly onLine err =
     (if \<not> onLine \<and> offline_text \<noteq> [] then offline_text
      else if err_message err \<noteq> [] then err_message err
      else error_toString err)"

text \<open>
  The rest of \<^verbatim>\<open>sendText\<close>, resumed on the state of that moment with the outcome of
  the request: the success path or the \<^verbatim>\<open>catch\<close> block, then \<^verbatim>\<open>finally\<close>.
\<close>

definition sendText_resume :: "engine \<Rightarrow> state \<Rightarrow> outcome \<Rightarrow> bool \<Rightarrow> jsstring \<Rightarrow> nat \<Rightarrow> state" where
  "sendText_resume eng st out onLine uid now =
     (let st' =
            (case await_reply eng out of
               Inr replyText \<Rightarrow>
                 (let botMsg = \<lparr>msg_id = uid, msg_role = Assistant,
                                msg_text = replyText, msg_ts = now\<rparr>;
                      st1 = st\<lparr>messages := messages st @ [botMsg]\<rparr>;
                      st2 = setThinking False st1
                  in render st2)
             | Inl err \<Rightarrow>
                 (let st1 = setThinking False st;
                      botErr = \<lparr>msg_id = uid, msg_role = Assistant,
                                msg_text = friendly onLine err, msg_ts = now\<rparr>;
                      st2 = st1\<lparr>messages := messages st1 @ [botErr]\<rparr>
                  in render st2))
      in st'\<lparr>isSending := False\<rparr>)"

subsection \<open>Calls and completions over time\<close>

text \<open>
  The event loop runs one handler at a time: a call of \<^verbatim>\<open>sendText\<close> up to its
  \<^verbatim>\<open>await\<close>, or the completion of the oldest request in flight, which resumes the call
  that issued it. \<open>in_flight\<close> lists the requests issued and not yet completed.
\<close>

datatype event =
    Send "jsstring option" jsstring nat
  | Settle outcome bool jsstring nat

record system =
  app :: state
  in_flight :: "request list"

fun step :: "engine \<Rightarrow> system \<Rightarrow> event \<Rightarrow> system" where
  "step eng sys (Send text uid now) =
     (case sendText_call (app sys) text uid now of
        (st', None) \<Rightarrow> sys\<lparr>app := st'\<rparr>
      | (st', Some req) \<Rightarrow> sys\<lparr>app := st', in_flight := in_flight sys @ [req]\<rparr>)"
| "step eng sys (Settle out onLine uid now) =
     (case in_flight sys of
        [] \<Rightarrow> sys
      | req # rest \<Rightarrow>
          sys\<lparr>app := sendText_resume eng (app sys) out onLine uid now, in_flight := rest\<rparr>)"

definition run :: "engine \<Rightarrow> system \<Rightarrow> event list \<Rightarrow> system" where
  "run eng sys evs = foldl (step eng) sys evs"

text \<open>The text of the assistant message a resumed call appends.\<close>

definition assistant_text :: "engine \<Rightarrow> outcome \<Rightarrow> bool \<Rightarrow> jsstring" where
  "assistant_text eng out onLine =
     (case await_reply eng out of
        Inr replyText \<Rightarrow> replyText
      | Inl err \<Rightarrow> friendly onLine err)"

subsection \<open>A sample page\<close>

text \<open>
  A page with all four elements after start-up: one assistant message, nothing in
  flight, the indicator hidden, and \<open>hello\<close> typed into the input. The sample engine
  parses the body \<^verbatim>\<open>{}\<close> only.
\<close>

definition sample_page :: state where
  "sample_page =
     \<lparr>messages = [\<lparr>msg_id = ascii ''w0'', msg_role = Assistant,
                    msg_text = ascii ''welcome'', msg_ts = 0\<rparr>],
      isSending = False,
      clientId = ascii ''c1'',
      elInput = Some \<lparr>in_value = ascii '' hello '', in_disabled = False\<rparr>,
      elBtnSend = Some False,
      elThinking = Some True,
      elMessages = Some [(False, ascii ''welcome'')]\<rparr>"

definition sample_engine :: engine where
  "sample_engine =
     \<lparr>JSON_parse = (\<lambda>raw. if raw = ascii ''{}'' then Some (JObj []) else None),
      conversion_message = ascii ''Cannot convert object to primitive value''\<rparr>"

text \<open>The sample page after \<^verbatim>\<open>sendText()\<close> has issued its request.\<close>

definition sample_sending :: state where
  "sample_sending = fst (sendText_call sample_page None (ascii ''u1'') 10)"

definition not_found :: response where
  "not_found = \<lparr>status = 404, statusText = ascii ''Not Found'', body = BodyText (ascii ''{}'')\<rparr>"

section \<open>Frame lemmas\<close>

lemma setThinking_frame [simp]:
  "messages (setThinking on st) = messages st"
  "isSending (setThinking on st) = isSending st"
  "clientId (setThinking on st) = clientId st"
  "elMessages (setThinking on st) = elMessages st"
  by (simp_all add: setThinking_def split: option.splits)

lemma setThinking_off_not_busy [simp]: "\<not> busy (setThinking False st)"
  by (simp add: setThinking_def busy_def split: option.splits)

lemma render_frame [simp]:
  "messages (render st) = messages st"
  "isSending (render st) = isSending st"
  "clientId (render st) = clientId st"
  "elThinking (render st) = elThinking st"
  "elInput (render st) = elInput st"
  "elBtnSend (render st) = elBtnSend st"
  by (simp_all add: render_def split: option.splits)

lemma busy_render [simp]: "busy (render st) = busy st"
  by (simp add: busy_def)

lemma busy_update [simp]:
  "busy (st\<lparr>messages := ms\<rparr>) = busy st"
  "busy (st\<lparr>isSending := b\<rparr>) = busy st"
  by (simp_all add: busy_def)

lemma resume_messages:
  "messages (sendText_resume eng st out onLine uid now) =
     messages st @ [\<lparr>msg_id = uid, msg_role = Assistant,
                     msg_text = assistant_text eng out onLine, msg_ts = now\<rparr>]"
  by (simp add: sendText_resume_def assistant_text_def Let_def split: sum.splits)

lemma resume_idle:
  "\<not> isSending (sendText_resume eng st out onLine uid now)"
  "\<not> busy (sendText_resume eng st out onLine uid now)"
  by (simp_all add: sendText_resume_def Let_def split: sum.splits)

text \<open>A call either changes nothing and requests nothing, or takes the lock, appends
  the user message and issues the chat request.\<close>

lemma call_cases:
  "sendText_call st text uid now = (st', r) \<Longrightarrow>
     (r = None \<and> st' = st \<and> (isSending st \<or> js_trim (effective_text st text) = [])) \<or>
     (\<not> isSending st \<and> js_trim (effective_text st text) \<noteq> [] \<and>
      r = Some (chat_request (js_trim (effective_text st text)) (clientId st)) \<and>
      isSending st' \<and>
      messages st' = messages st @ [\<lparr>msg_id = uid, msg_role = User,
                      msg_text = js_trim (effective_text st text), msg_ts = now\<rparr>])"
  by (auto simp add: sendText_call_def Let_def split: if_splits)

text \<open>Evaluation on the samples.\<close>

lemma ascii_Nil_iff [simp]: "ascii s = [] \<longleftrightarrow> s = []"
  by (simp add: ascii_def)

lemma trim_blanks: "js_trim (ascii ''   '') = []"
  by (simp add: js_trim_def ascii_def is_whitespace_def)

lemma trim_hello: "js_trim (ascii '' hello '') = ascii ''hello''"
  by (simp add: js_trim_def ascii_def is_whitespace_def)

lemma sample_call:
  "sendText_call sample_page None (ascii ''u1'') 10 =
     (sample_sending, Some (chat_request (ascii ''hello'') (ascii ''c1'')))"
  by (simp add: sample_sending_def sendText_call_def sample_page_def effective_text_def
        trim_hello Let_def)

lemma sample_sending_locked: "isSending sample_sending"
  by (simp add: sample_sending_def sendText_call_def sample_page_def effective_text_def
        trim_hello Let_def)

lemma sample_effective_text: "js_trim (effective_text sample_page None) = ascii ''hello''"
  by (simp add: effective_text_def sample_page_def trim_hello)

lemma sample_messages:
  "messages sample_page =
     [\<lparr>msg_id = ascii ''w0'', msg_role = Assistant, msg_text = ascii ''welcome'', msg_ts = 0\<rparr>]"
  by (simp add: sample_page_def)

lemma not_found_reply:
  "await_reply eng (Responded not_found) =
     Inl (JsError (ascii ''Error'') (network_unstable_text @ ascii ''!''))"
  by (simp add: await_reply_def not_found_def ok_def Let_def)

lemma replicate_two: "replicate 2 x = [x, x]"
  by (simp add: numeral_2_eq_2)

lemmas json_eval = JSON_stringify_def wrap_json_def quote_json_def escape_unit_def
  is_lead_def is_trail_def ascii_def replicate_two

lemma has_key_of_lookup: "map_of kvs k = Some v \<Longrightarrow> k \<in> fst ` set kvs"
  by (force dest: map_of_SomeD)

lemma other_key_remains:
  "k \<in> fst ` set kvs \<Longrightarrow> k \<noteq> c \<Longrightarrow> filter (\<lambda>k. k \<noteq> c) (map fst kvs) \<noteq> []"
  by (auto simp add: filter_empty_conv)

lemma payload_serializable:
  "JSON_stringify (request_payload content cid) 0 = Inr (json_text [] [] (request_payload content cid))"
  by (simp add: JSON_stringify_def request_payload_def)

lemma sample_second_call:
  "sendText_call sample_sending (Some (ascii ''again'')) (ascii ''u3'') 30 = (sample_sending, None)"
  using sample_sending_locked by (simp add: sendText_call_def)

lemma sample_run:
  "run sample_engine \<lparr>app = sample_page, in_flight = []\<rparr>
                [Send None (ascii ''u1'') 10, Send (Some (ascii ''again'')) (ascii ''u3'') 30]
     = \<lparr>app = sample_sending, in_flight = [chat_request (ascii ''hello'') (ascii ''c1'')]\<rparr>"
  by (simp add: run_def sample_call sample_second_call)

section \<open>The send lock over time\<close>

text \<open>
  The send flag is set exactly when one request is in flight, and never more than one
  is: every handler keeps this.
\<close>

lemma step_lock:
  assumes "isSending (app sys) = (length (in_flight sys) = 1)" and "length (in_flight sys) \<le> 1"
  shows "isSending (app (step eng sys evt)) = (length (in_flight (step eng sys evt)) = 1)
       \<and> length (in_flight (step eng sys evt)) \<le> 1"
proof (cases evt)
  case (Send t uid now)
  obtain st' r where c: "sendText_call (app sys) t uid now = (st', r)"
    by (cases "sendText_call (app sys) t uid now") auto
  from call_cases [OF c] assms show ?thesis
    by (cases "in_flight sys") (auto simp add: Send c)
next
  case (Settle out onLine uid now)
  with assms show ?thesis
    by (cases "in_flight sys") (auto simp add: resume_idle)
qed

lemma run_lock:
  "isSending (app sys) = (length (in_flight sys) = 1) \<Longrightarrow> length (in_flight sys) \<le> 1 \<Longrightarrow>
   isSending (app (run eng sys evs)) = (length (in_flight (run eng sys evs)) = 1)
   \<and> length (in_flight (run eng sys evs)) \<le> 1"
  unfolding run_def
proof (induction evs arbitrary: sys)
  case Nil
  then show ?case by simp
next
  case (Cons evt evs)
  from step_lock [OF Cons.prems, of eng evt] Cons.IH [of "step eng sys evt"]
  show ?case by simp
qed

section \<open>The claims\<close>

text \<open>
  C9. The result of \<^verbatim>\<open>extractBotReply\<close> depends on its first argument only: for two
  second arguments \<open>raw1\<close> and \<open>raw2\<close> the results are equal, whether a string is
  returned or an exception thrown.
\<close>

theorem extractBotReply_ignores_raw:
  "extractBotReply data raw1 = extractBotReply data raw2"
  by (simp add: extractBotReply_def)

theorem extractBotReply_ignores_raw_witness:
  "extractBotReply (JObj [(ascii ''message'', JStr (ascii ''ok''))]) (ascii ''{\"message\":\"ok\"}'')
     = extractBotReply (JObj [(ascii ''message'', JStr (ascii ''ok''))]) []"
  using extractBotReply_ignores_raw
          [of "JObj [(ascii ''message'', JStr (ascii ''ok''))]" "ascii ''{\"message\":\"ok\"}''" "[]"]
  by simp

text \<open>
  C7. A call of \<^verbatim>\<open>sendText\<close> whose effective text trims to the empty string leaves
  the whole state as it was (messages, send flag, busy indicator) and issues no request.
\<close>

theorem sendText_blank_noop:
  "js_trim (effective_text st text) = [] \<Longrightarrow> sendText_call st text uid now = (st, None)"
  by (simp add: sendText_call_def)

theorem sendText_blank_noop_witness:
  "js_trim (effective_text sample_page (Some (ascii ''   ''))) = []
   \<and> sendText_call sample_page (Some (ascii ''   '')) (ascii ''u1'') 10 = (sample_page, None)"
proof -
  have h: "js_trim (effective_text sample_page (Some (ascii ''   ''))) = []"
    by (simp add: effective_text_def trim_blanks)
  show ?thesis
    using h sendText_blank_noop [OF h, of "ascii ''u1''" 10] by simp
qed

text \<open>
  C1. When a call of \<^verbatim>\<open>sendText\<close> issues its request, then whatever the outcome of
  the request (a reply, an HTTP error, an unparsable body, a network failure) and
  whatever the connectivity, the completed call has appended the user message and
  exactly one assistant message, the send flag is reset and the busy indicator is not
  shown.
\<close>

theorem sendText_one_assistant_message:
  assumes "sendText_call st text u1 n1 = (st1, Some req)"
  shows "messages (sendText_resume eng st1 out onLine u2 n2) =
           messages st
           @ [\<lparr>msg_id = u1, msg_role = User,
                msg_text = js_trim (effective_text st text), msg_ts = n1\<rparr>,
              \<lparr>msg_id = u2, msg_role = Assistant,
                msg_text = assistant_text eng out onLine, msg_ts = n2\<rparr>]
         \<and> length (filter (\<lambda>m. msg_role m = Assistant)
                     (messages (sendText_resume eng st1 out onLine u2 n2)))
             = length (filter (\<lambda>m. msg_role m = Assistant) (messages st)) + 1
         \<and> \<not> isSending (sendText_resume eng st1 out onLine u2 n2)
         \<and> \<not> busy (sendText_resume eng st1 out onLine u2 n2)"
proof -
  from call_cases [OF assms]
  have m1: "messages st1 = messages st @ [\<lparr>msg_id = u1, msg_role = User,
                      msg_text = js_trim (effective_text st text), msg_ts = n1\<rparr>]"
    by auto
  have m2: "messages (sendText_resume eng st1 out onLine u2 n2) =
           messages st
           @ [\<lparr>msg_id = u1, msg_role = User,
                msg_text = js_trim (effective_text st text), msg_ts = n1\<rparr>,
              \<lparr>msg_id = u2, msg_role = Assistant,
                msg_text = assistant_text eng out onLine, msg_ts = n2\<rparr>]"
    by (simp add: resume_messages m1)
  have m3: "length (filter (\<lambda>m. msg_role m = Assistant)
                     (messages (sendText_resume eng st1 out onLine u2 n2)))
             = length (filter (\<lambda>m. msg_role m = Assistant) (messages st)) + 1"
    by (simp add: m2)
  show ?thesis
    using m2 m3 resume_idle [of eng st1 out onLine u2 n2] by blast
qed

theorem sendText_one_assistant_message_witness:
  "sendText_call sample_page None (ascii ''u1'') 10 =
     (sample_sending, Some (chat_request (ascii ''hello'') (ascii ''c1'')))
   \<and> messages (sendText_resume sample_engine sample_sending (Responded not_found) True
                 (ascii ''u2'') 20) =
       [\<lparr>msg_id = ascii ''w0'', msg_role = Assistant, msg_text = ascii ''welcome'', msg_ts = 0\<rparr>,
        \<lparr>msg_id = ascii ''u1'', msg_role = User, msg_text = ascii ''hello'', msg_ts = 10\<rparr>,
        \<lparr>msg_id = ascii ''u2'', msg_role = Assistant,
          msg_text = network_unstable_text @ ascii ''!'', msg_ts = 20\<rparr>]
   \<and> \<not> isSending (sendText_resume sample_engine sample_sending (Responded not_found) True
                     (ascii ''u2'') 20)
   \<and> \<not> busy (sendText_resume sample_engine sample_sending (Responded not_found) True
                (ascii ''u2'') 20)"
proof -
  have t: "assistant_text sample_engine (Responded not_found) True
             = network_unstable_text @ ascii ''!''"
    by (simp add: assistant_text_def not_found_reply friendly_def)
  show ?thesis
    using sendText_one_assistant_message [OF sample_call, of sample_engine
            "Responded not_found" True "ascii ''u2''" 20] sample_call
    by (simp add: t sample_effective_text sample_messages)
qed

text \<open>
  C10. Whatever error ends the \<^verbatim>\<open>try\<close> block (a rejected \<^verbatim>\<open>fetch\<close>, an unreadable
  body, the error thrown for status 404 or 502 or for any other status outside 200 to
  299, an exception of \<^verbatim>\<open>extractBotReply\<close>): when \<^verbatim>\<open>navigator.onLine\<close> is false as
  the error is handled, the one message appended is an assistant message with the
  offline text.
\<close>

theorem offline_text_takes_precedence:
  assumes "await_reply eng out = Inl err" and "\<not> onLine"
  shows "messages (sendText_resume eng st out onLine uid now) =
           messages st @ [\<lparr>msg_id = uid, msg_role = Assistant,
                           msg_text = offline_text, msg_ts = now\<rparr>]"
  using assms
  by (simp add: resume_messages assistant_text_def friendly_def offline_text_def)

theorem offline_text_takes_precedence_witness:
  "await_reply sample_engine (Responded not_found) =
      Inl (JsError (ascii ''Error'') (network_unstable_text @ ascii ''!''))
   \<and> messages (sendText_resume sample_engine sample_sending (Responded not_found) False
                 (ascii ''u2'') 20) =
       messages sample_sending @ [\<lparr>msg_id = ascii ''u2'', msg_role = Assistant,
                           msg_text = offline_text, msg_ts = 20\<rparr>]"
  using offline_text_takes_precedence
          [OF not_found_reply, of False sample_engine sample_sending "ascii ''u2''" 20]
        not_found_reply [of sample_engine]
  by simp

text \<open>
  C3 as stated fails: for status 404 with the browser on line, the text appended is
  the text of rule 5 followed by an exclamation mark, not the text of rule 5.
\<close>

theorem status_404_text_counterexample:
  "status not_found = 404
   \<and> msg_text (last (messages (sendText_resume sample_engine sample_sending (Responded not_found)
                                  True (ascii ''u2'') 20))) = network_unstable_text @ ascii ''!''
   \<and> msg_text (last (messages (sendText_resume sample_engine sample_sending (Responded not_found)
                                  True (ascii ''u2'') 20))) \<noteq> network_unstable_text"
proof -
  have a: "status not_found = 404" by (simp add: not_found_def)
  have b: "msg_text (last (messages (sendText_resume sample_engine sample_sending
             (Responded not_found) True (ascii ''u2'') 20))) = network_unstable_text @ ascii ''!''"
    by (simp add: resume_messages assistant_text_def not_found_reply friendly_def)
  from a b show ?thesis by simp
qed

text \<open>
  C3, amended. For a response with status 502 or 404 whose body text was read, whatever
  that text is, the assistant message appended is the network-unstable text followed
  by \<^verbatim>\<open>!\<close> when the browser reports connectivity, and the offline text when it does
  not.
\<close>

theorem status_502_404_text:
  assumes "status res = 502 \<or> status res = 404" and "body res = BodyText raw"
  shows "messages (sendText_resume eng st (Responded res) onLine uid now) =
           messages st @ [\<lparr>msg_id = uid, msg_role = Assistant,
                           msg_text = (if onLine then network_unstable_text @ ascii ''!''
                                       else offline_text),
                           msg_ts = now\<rparr>]"
proof -
  from assms(1) have nok: "\<not> ok res" by (auto simp add: ok_def)
  have "await_reply eng (Responded res) =
          Inl (JsError (ascii ''Error'') (network_unstable_text @ ascii ''!''))"
    using assms nok by (simp add: await_reply_def Let_def)
  then show ?thesis
    by (simp add: resume_messages assistant_text_def friendly_def offline_text_def)
qed

theorem status_502_404_text_witness:
  "(status not_found = 502 \<or> status not_found = 404)
   \<and> body not_found = BodyText (ascii ''{}'')
   \<and> messages (sendText_resume sample_engine sample_sending (Responded not_found) True
                 (ascii ''u2'') 20) =
       messages sample_sending @ [\<lparr>msg_id = ascii ''u2'', msg_role = Assistant,
                           msg_text = network_unstable_text @ ascii ''!'', msg_ts = 20\<rparr>]"
proof -
  have a: "status not_found = 502 \<or> status not_found = 404" by (simp add: not_found_def)
  have b: "body not_found = BodyText (ascii ''{}'')" by (simp add: not_found_def)
  show ?thesis
    using a b status_502_404_text [OF a b, of sample_engine sample_sending True "ascii ''u2''" 20]
    by simp
qed

text \<open>
  C6 as stated fails: the \<^verbatim>\<open>language\<close> field of the body is the four characters of
  \<open>language_text\<close>, not \<^verbatim>\<open>zh-Hant\<close>.
\<close>

theorem request_language_counterexample:
  "sendText_call sample_page None (ascii ''u1'') 10 =
      (sample_sending, Some (chat_request (ascii ''hello'') (ascii ''c1'')))
   \<and> req_body (chat_request (ascii ''hello'') (ascii ''c1'')) =
       ascii ''{\"text\":\"hello\",\"clientId\":\"c1\",\"language\":\"'' @ language_text @ ascii ''\"}''
   \<and> req_body (chat_request (ascii ''hello'') (ascii ''c1'')) \<noteq>
       ascii ''{\"text\":\"hello\",\"clientId\":\"c1\",\"language\":\"zh-Hant\"}''"
proof -
  have b: "req_body (chat_request (ascii ''hello'') (ascii ''c1'')) =
       ascii ''{\"text\":\"hello\",\"clientId\":\"c1\",\"language\":\"'' @ language_text @ ascii ''\"}''"
    by (simp add: chat_request_def request_payload_def json_eval language_text_def)
  have c: "ascii ''{\"text\":\"hello\",\"clientId\":\"c1\",\"language\":\"'' @ language_text @ ascii ''\"}''
        \<noteq> ascii ''{\"text\":\"hello\",\"clientId\":\"c1\",\"language\":\"zh-Hant\"}''"
    by (simp add: ascii_def language_text_def)
  from sample_call b c show ?thesis by simp
qed

text \<open>
  C6, amended. Every request \<^verbatim>\<open>sendText\<close> issues goes to \<^verbatim>\<open>/api/chat\<close> under
  \<^verbatim>\<open>API_BASE\<close> by POST, with the headers \<^verbatim>\<open>Content-Type: application/json\<close> and
  \<^verbatim>\<open>X-Client-Id\<close> set to the client identifier, and its body is the JSON text of the
  object with exactly the fields \<^verbatim>\<open>text\<close> (the trimmed effective text), \<^verbatim>\<open>clientId\<close>
  and \<^verbatim>\<open>language\<close>, the last being the text \<open>language_text\<close>.
\<close>

theorem sendText_request_shape:
  assumes "sendText_call st text uid now = (st', Some req)"
  shows "req_url req = ascii ''https://taipei-marathon-server.onrender.com/api/chat''
       \<and> req_method req = ascii ''POST''
       \<and> req_headers req = [(ascii ''Content-Type'', ascii ''application/json''),
                             (ascii ''X-Client-Id'', clientId st)]
       \<and> JSON_stringify
            (JObj [(ascii ''text'', JStr (js_trim (effective_text st text))),
                   (ascii ''clientId'', JStr (clientId st)),
                   (ascii ''language'', JStr language_text)]) 0 = Inr (req_body req)"
proof -
  from call_cases [OF assms]
  have r: "req = chat_request (js_trim (effective_text st text)) (clientId st)"
    by auto
  have u: "api (ascii ''/api/chat'') = ascii ''https://taipei-marathon-server.onrender.com/api/chat''"
    by (simp add: api_def API_BASE_def ascii_def)
  show ?thesis
    using payload_serializable [of "js_trim (effective_text st text)" "clientId st"]
    by (simp add: r chat_request_def u request_payload_def)
qed

theorem sendText_request_shape_witness:
  "sendText_call sample_page None (ascii ''u1'') 10 =
     (sample_sending, Some (chat_request (ascii ''hello'') (ascii ''c1'')))
   \<and> req_url (chat_request (ascii ''hello'') (ascii ''c1'')) =
        ascii ''https://taipei-marathon-server.onrender.com/api/chat''
   \<and> req_method (chat_request (ascii ''hello'') (ascii ''c1'')) = ascii ''POST''
   \<and> req_headers (chat_request (ascii ''hello'') (ascii ''c1'')) =
        [(ascii ''Content-Type'', ascii ''application/json''), (ascii ''X-Client-Id'', ascii ''c1'')]
   \<and> JSON_stringify
        (JObj [(ascii ''text'', JStr (ascii ''hello'')),
               (ascii ''clientId'', JStr (ascii ''c1'')),
               (ascii ''language'', JStr language_text)]) 0
        = Inr (req_body (chat_request (ascii ''hello'') (ascii ''c1'')))"
proof -
  have c: "clientId sample_page = ascii ''c1''"
    by (simp add: sample_page_def)
  show ?thesis
    using sendText_request_shape [OF sample_call] sample_call
    by (simp add: sample_effective_text c)
qed

text \<open>
  C2. A call of \<^verbatim>\<open>sendText\<close> made while the send flag is set changes nothing and
  issues no request. Hence a second call made after a call that issued a request, and
  before that request completes, issues none; and along every sequence of calls and
  completions from an idle session, the flag is set exactly when one request is in
  flight, and at most one ever is.
\<close>

theorem sendText_ignored_while_sending:
  "(isSending st \<longrightarrow> sendText_call st text uid now = (st, None))
   \<and> (sendText_call st0 a u1 n1 = (st1, Some req) \<longrightarrow> sendText_call st1 b u2 n2 = (st1, None))
   \<and> (\<not> isSending (app sys) \<and> in_flight sys = [] \<longrightarrow>
        isSending (app (run eng sys evs)) = (length (in_flight (run eng sys evs)) = 1)
        \<and> length (in_flight (run eng sys evs)) \<le> 1)"
proof (intro conjI impI)
  assume "isSending st"
  then show "sendText_call st text uid now = (st, None)"
    by (simp add: sendText_call_def)
next
  assume c: "sendText_call st0 a u1 n1 = (st1, Some req)"
  from call_cases [OF c] have "isSending st1" by auto
  then show "sendText_call st1 b u2 n2 = (st1, None)"
    by (simp add: sendText_call_def)
next
  assume i: "\<not> isSending (app sys) \<and> in_flight sys = []"
  from i run_lock [of sys eng evs]
  show "isSending (app (run eng sys evs)) = (length (in_flight (run eng sys evs)) = 1)"
    by simp
next
  assume i: "\<not> isSending (app sys) \<and> in_flight sys = []"
  from i run_lock [of sys eng evs]
  show "length (in_flight (run eng sys evs)) \<le> 1"
    by simp
qed

theorem sendText_ignored_while_sending_witness:
  "isSending sample_sending
   \<and> sendText_call sample_page None (ascii ''u1'') 10 =
       (sample_sending, Some (chat_request (ascii ''hello'') (ascii ''c1'')))
   \<and> sendText_call sample_sending (Some (ascii ''again'')) (ascii ''u3'') 30
       = (sample_sending, None)
   \<and> \<not> isSending (app \<lparr>app = sample_page, in_flight = []\<rparr>)
   \<and> in_flight \<lparr>app = sample_page, in_flight = []\<rparr> = []
   \<and> run sample_engine \<lparr>app = sample_page, in_flight = []\<rparr>
                [Send None (ascii ''u1'') 10, Send (Some (ascii ''again'')) (ascii ''u3'') 30]
       = \<lparr>app = sample_sending, in_flight = [chat_request (ascii ''hello'') (ascii ''c1'')]\<rparr>
   \<and> isSending (app (run sample_engine \<lparr>app = sample_page, in_flight = []\<rparr>
                [Send None (ascii ''u1'') 10, Send (Some (ascii ''again'')) (ascii ''u3'') 30]))
   \<and> length (in_flight (run sample_engine \<lparr>app = sample_page, in_flight = []\<rparr>
                [Send None (ascii ''u1'') 10, Send (Some (ascii ''again'')) (ascii ''u3'') 30])) = 1"
proof -
  have i: "\<not> isSending (app \<lparr>app = sample_page, in_flight = []\<rparr>)"
    by (simp add: sample_page_def)
  show ?thesis
    using sendText_ignored_while_sending
            [of sample_sending "Some (ascii ''again'')" "ascii ''u3''" 30
                sample_page None "ascii ''u1''" 10 sample_sending
                "chat_request (ascii ''hello'') (ascii ''c1'')"
                "Some (ascii ''again'')" "ascii ''u3''" 30
                "\<lparr>app = sample_page, in_flight = []\<rparr>" sample_engine
                "[Send None (ascii ''u1'') 10, Send (Some (ascii ''again'')) (ascii ''u3'') 30]"]
          sample_call sample_sending_locked i
    by (simp add: sample_run)
qed

text \<open>
  C4 at the value null. The object \<^verbatim>\<open>{"text": null}\<close> has a \<^verbatim>\<open>text\<close> field, and
  \<^verbatim>\<open>String(null)\<close> is \<^verbatim>\<open>null\<close>; the function returns the indented JSON text of the
  object instead, since null also marks that no field was found. With a \<^verbatim>\<open>message\<close>
  field beside it, neither field is used.
\<close>

theorem extractBotReply_null_text:
  "js_String JNull = Inr (ascii ''null'')
   \<and> extractBotReply (JObj [(ascii ''text'', JNull)]) raw =
       Inr (ascii ''{'' @ [10] @ ascii ''  \"text\": null'' @ [10] @ ascii ''}'')
   \<and> extractBotReply (JObj [(ascii ''text'', JNull), (ascii ''message'', JStr (ascii ''hi''))]) raw =
       Inr (ascii ''{'' @ [10] @ ascii ''  \"text\": null,'' @ [10]
            @ ascii ''  \"message\": \"hi\"'' @ [10] @ ascii ''}'')"
  by (simp add: extractBotReply_def json_eval)

theorem extractBotReply_null_text_witness:
  "js_String JNull = Inr (ascii ''null'')
   \<and> extractBotReply (JObj [(ascii ''text'', JNull)]) (ascii ''{\"text\":null}'') =
       Inr (ascii ''{'' @ [10] @ ascii ''  \"text\": null'' @ [10] @ ascii ''}'')
   \<and> extractBotReply (JObj [(ascii ''text'', JNull), (ascii ''message'', JStr (ascii ''hi''))])
         (ascii ''{\"text\":null}'') =
       Inr (ascii ''{'' @ [10] @ ascii ''  \"text\": null,'' @ [10]
            @ ascii ''  \"message\": \"hi\"'' @ [10] @ ascii ''}'')"
  using extractBotReply_null_text [of "ascii ''{\"text\":null}''"] by simp

text \<open>
  For every other value of the \<^verbatim>\<open>text\<close> field the function does what C4 says: the
  conversion to string, trimmed, or the rephrase text when that is empty; an exception
  of the conversion is passed on.
\<close>

lemma extractBotReply_text_field:
  assumes "map_of kvs (ascii ''text'') = Some v" and "v \<noteq> JNull"
  shows "extractBotReply (JObj kvs) raw =
           (case js_String v of
              Inl e \<Rightarrow> Inl e
            | Inr s \<Rightarrow> Inr (if js_trim s \<noteq> [] then js_trim s else rephrase_text))"
  using assms has_key_of_lookup [OF assms(1)]
  by (simp add: extractBotReply_def Let_def split: sum.splits)

text \<open>
  C8 at an object whose \<^verbatim>\<open>text\<close> field cannot be converted to a string: the body
  \<^verbatim>\<open>{"text": {"toString": 1}}\<close> makes \<^verbatim>\<open>String(textContent)\<close> throw a TypeError, which
  \<^verbatim>\<open>extractBotReply\<close> does not catch.
\<close>

theorem extractBotReply_throws:
  "extractBotReply (JObj [(ascii ''text'', JObj [(ascii ''toString'', JNum (ascii ''1''))])]) raw
     = Inl TypeError"
  by (simp add: extractBotReply_def ascii_def)

theorem extractBotReply_throws_witness:
  "extractBotReply (JObj [(ascii ''text'', JObj [(ascii ''toString'', JNum (ascii ''1''))])])
      (ascii ''{\"text\":{\"toString\":1}}'')
     = Inl TypeError"
  using extractBotReply_throws [of "ascii ''{\"text\":{\"toString\":1}}''"] by simp

text \<open>
  Nothing else makes \<^verbatim>\<open>extractBotReply\<close> throw: an exception is the one of converting
  the \<^verbatim>\<open>text\<close>, \<^verbatim>\<open>message\<close> or \<^verbatim>\<open>error\<close> field. A value that is not an object
  gives a string, and so does every object that reaches \<^verbatim>\<open>JSON.stringify\<close>, whose
  failure is caught.
\<close>

lemma extractBotReply_throws_only_by_conversion:
  assumes "extractBotReply data raw = Inl e"
  shows "js_String (get_prop data (ascii ''text'')) = Inl e
       \<or> js_String (get_prop data (ascii ''message'')) = Inl e
       \<or> js_String (get_prop data (ascii ''error'')) = Inl e"
  using assms
  by (simp add: extractBotReply_def Let_def split: if_splits sum.splits)

lemma extractBotReply_on_primitives:
  "js_typeof data \<noteq> ''object'' \<Longrightarrow> \<exists>s. extractBotReply data raw = Inr s"
  by (simp add: extractBotReply_def Let_def)

lemma extractBotReply_catches_serialization:
  assumes "\<not> has_prop (ascii ''text'') data" and "\<not> has_prop (ascii ''message'') data"
    and "\<not> truthy (get_prop data (ascii ''error''))"
  shows "\<exists>s. extractBotReply data raw = Inr s"
  using assms
  by (simp add: extractBotReply_def Let_def split: sum.splits)

lemma extractBotReply_bigint_caught:
  "extractBotReply (JObj [(ascii ''n'', JBigInt (ascii ''1''))]) raw = Inr abnormal_text"
  by (simp add: extractBotReply_def json_eval)

text \<open>
  C5 as stated fails: the object \<^verbatim>\<open>{"error": ""}\<close> has an \<^verbatim>\<open>error\<close> property and no
  \<^verbatim>\<open>text\<close> or \<^verbatim>\<open>message\<close>, and \<^verbatim>\<open>String("")\<close> is the empty string; the function
  returns the indented JSON text of the object.
\<close>

theorem falsy_error_counterexample:
  "has_prop (ascii ''error'') (JObj [(ascii ''error'', JStr [])])
   \<and> \<not> has_prop (ascii ''text'') (JObj [(ascii ''error'', JStr [])])
   \<and> \<not> has_prop (ascii ''message'') (JObj [(ascii ''error'', JStr [])])
   \<and> filter (\<lambda>k. k \<noteq> ascii ''clientId'') (object_keys (JObj [(ascii ''error'', JStr [])])) =
       [ascii ''error'']
   \<and> js_String (get_prop (JObj [(ascii ''error'', JStr [])]) (ascii ''error'')) = Inr []
   \<and> extractBotReply (JObj [(ascii ''error'', JStr [])]) [] =
       Inr (ascii ''{'' @ [10] @ ascii ''  \"error\": \"\"'' @ [10] @ ascii ''}'')
   \<and> extractBotReply (JObj [(ascii ''error'', JStr [])]) [] \<noteq>
       js_String (get_prop (JObj [(ascii ''error'', JStr [])]) (ascii ''error''))"
  by (simp add: extractBotReply_def json_eval)

text \<open>
  C5, amended. For data with neither a \<^verbatim>\<open>text\<close> nor a \<^verbatim>\<open>message\<close> field whose
  \<^verbatim>\<open>error\<close> property is truthy, \<^verbatim>\<open>extractBotReply\<close> is \<^verbatim>\<open>String(data.error)\<close>: the
  same string, or the same exception.
\<close>

theorem extractBotReply_truthy_error:
  assumes "\<not> has_prop (ascii ''text'') data" and "\<not> has_prop (ascii ''message'') data"
    and "truthy (get_prop data (ascii ''error''))"
  shows "extractBotReply data raw = js_String (get_prop data (ascii ''error''))"
proof (cases data)
  case (JObj kvs)
  from assms(3) JObj obtain v where v: "map_of kvs (ascii ''error'') = Some v"
    by (cases "map_of kvs (ascii ''error'')") auto
  have d: "ascii ''error'' \<noteq> ascii ''clientId''"
    by (simp add: ascii_def)
  have k: "filter (\<lambda>k. k \<noteq> ascii ''clientId'') (map fst kvs) \<noteq> []"
    by (rule other_key_remains [OF has_key_of_lookup [OF v] d])
  from assms JObj k show ?thesis
    by (simp add: extractBotReply_def Let_def)
next
  case JUndefined
  with assms(3) show ?thesis by simp
next
  case JNull
  with assms(3) show ?thesis by simp
next
  case (JBool b)
  with assms(3) show ?thesis by simp
next
  case (JNum r)
  with assms(3) show ?thesis by simp
next
  case (JStr s)
  with assms(3) show ?thesis by simp
next
  case (JBigInt r)
  with assms(3) show ?thesis by simp
next
  case (JArr xs)
  with assms(3) show ?thesis by simp
qed

theorem extractBotReply_truthy_error_witness:
  "\<not> has_prop (ascii ''text'') (JObj [(ascii ''error'', JStr (ascii ''bad input''))])
   \<and> \<not> has_prop (ascii ''message'') (JObj [(ascii ''error'', JStr (ascii ''bad input''))])
   \<and> truthy (get_prop (JObj [(ascii ''error'', JStr (ascii ''bad input''))]) (ascii ''error''))
   \<and> extractBotReply (JObj [(ascii ''error'', JStr (ascii ''bad input''))]) [] =
       Inr (ascii ''bad input'')"
proof -
  have a: "\<not> has_prop (ascii ''text'') (JObj [(ascii ''error'', JStr (ascii ''bad input''))])"
    by (simp add: ascii_def)
  have b: "\<not> has_prop (ascii ''message'') (JObj [(ascii ''error'', JStr (ascii ''bad input''))])"
    by (simp add: ascii_def)
  have c: "truthy (get_prop (JObj [(ascii ''error'', JStr (ascii ''bad input''))]) (ascii ''error''))"
    by simp
  show ?thesis
    using a b c extractBotReply_truthy_error [OF a b c, of "[]"] by simp
qed

end
